theory Spec2Isabelle
  imports Complex_Main
begin

section \<open>Values, dictionaries and exceptions\<close>

text \<open>
  The valuation core (\<^verbatim>\<open>models/fcfe_calculator.py\<close>, \<^verbatim>\<open>models/dcf_model.py\<close>,
  \<^verbatim>\<open>utils/helpers.py\<close>) works on a Python dictionary of financial metrics. A key can
  be missing, or present with the value \<^verbatim>\<open>None\<close> (the Yahoo data source stores
  \<^verbatim>\<open>None\<close> for a metric it could not find), or present with a number. A number is
  modelled by its exact real value: the rounding of binary floating point and the values
  inf and NaN are outside this model. What the model keeps of the float range is where
  the code raises on it, see \<open>to_float\<close> and \<open>py_pow\<close> below.
\<close>

datatype pyval = PNone | PNum real

type_synonym financial_data = "string \<rightharpoonup> pyval"

datatype py_exception = TypeError | ZeroDivisionError | IndexError | OverflowError

text \<open>\<^verbatim>\<open>d.get(k, default)\<close>; \<^verbatim>\<open>d.get(k)\<close> is \<open>dict_get d k PNone\<close>.\<close>

definition dict_get :: "financial_data \<Rightarrow> string \<Rightarrow> pyval \<Rightarrow> pyval" where
  "dict_get d k dflt = (case d k of None \<Rightarrow> dflt | Some v \<Rightarrow> v)"

text \<open>Truth value of an object in a condition: \<^verbatim>\<open>None\<close> and zero are false.\<close>

fun truthy :: "pyval \<Rightarrow> bool" where
  "truthy PNone = False"
| "truthy (PNum x) = (x \<noteq> 0)"

text \<open>An operand of \<^verbatim>\<open>+ - * /\<close>: \<^verbatim>\<open>None\<close> there raises \<^verbatim>\<open>TypeError\<close>.\<close>

fun as_num :: "pyval \<Rightarrow> py_exception + real" where
  "as_num PNone = Inl TypeError"
| "as_num (PNum x) = Inr x"

text \<open>Sequencing of steps that can raise: the first exception ends the block.\<close>

definition bind_exc :: "py_exception + 'a \<Rightarrow> ('a \<Rightarrow> py_exception + 'b) \<Rightarrow> py_exception + 'b" where
  "bind_exc r f = (case r of Inl e \<Rightarrow> Inl e | Inr x \<Rightarrow> f x)"

text \<open>True division of numbers raises on a zero divisor.\<close>

definition py_div :: "real \<Rightarrow> real \<Rightarrow> py_exception + real" where
  "py_div a b = (if b = 0 then Inl ZeroDivisionError else Inr (a / b))"

text \<open>
  A float is below \<open>2 ^ 1024 - 2 ^ 970\<close> in magnitude, the least magnitude that rounds
  beyond the largest double. A number at or above it is therefore an int, and converting
  it to a float raises \<^verbatim>\<open>OverflowError\<close>: in arithmetic with a float, and in a log line
  that formats it with a float format (\<^verbatim>\<open>:,.0f\<close>, \<^verbatim>\<open>:.2f\<close>).
\<close>

definition float_limit :: real where
  "float_limit = 2 ^ 1024 - 2 ^ 970"

definition to_float :: "real \<Rightarrow> py_exception + real" where
  "to_float x = (if float_limit \<le> \<bar>x\<bar> then Inl OverflowError else Inr x)"

text \<open>
  \<^verbatim>\<open>b ** n\<close> for a float \<^verbatim>\<open>b\<close> and an int \<^verbatim>\<open>n\<close> from 0: a power that leaves the float
  range raises \<^verbatim>\<open>OverflowError\<close>; a power at or below \<open>2 ^ -1075\<close> in magnitude, half
  the least positive double, is 0.0.
\<close>

definition py_pow :: "real \<Rightarrow> nat \<Rightarrow> py_exception + real" where
  "py_pow b n =
     (if float_limit \<le> \<bar>b ^ n\<bar> then Inl OverflowError
      else if \<bar>b ^ n\<bar> \<le> 1 / 2 ^ 1075 then Inr 0
      else Inr (b ^ n))"

section \<open>utils/helpers.py\<close>

text \<open>
  \<^verbatim>\<open>safe_divide\<close>: the body of its \<^verbatim>\<open>try\<close> is \<open>safe_divide_try\<close>; the bare
  \<^verbatim>\<open>except\<close> turns any exception into the default. A quotient too large for a float
  raises there.
\<close>

definition safe_divide_try :: "real \<Rightarrow> real \<Rightarrow> real \<Rightarrow> py_exception + real" where
  "safe_divide_try numerator denominator dflt =
     (if denominator = 0 then Inr dflt
      else bind_exc (py_div numerator denominator) to_float)"

definition safe_divide :: "real \<Rightarrow> real \<Rightarrow> real \<Rightarrow> real" where
  "safe_divide numerator denominator dflt =
     (case safe_divide_try numerator denominator dflt of Inl e \<Rightarrow> dflt | Inr q \<Rightarrow> q)"

section \<open>models/fcfe\_calculator.py\<close>

text \<open>
  The idiom \<^verbatim>\<open>v and v > 0\<close>: the comparison is reached only for a truthy \<^verbatim>\<open>v\<close>,
  that is for a non-zero number. The result is that number when the condition holds.
\<close>

fun truthy_and_positive :: "pyval \<Rightarrow> real option" where
  "truthy_and_positive PNone = None"
| "truthy_and_positive (PNum x) = (if x \<noteq> 0 \<and> x > 0 then Some x else None)"

text \<open>
  \<^verbatim>\<open>calculate_fcfe\<close>. The body of its \<^verbatim>\<open>try\<close> is \<open>calculate_fcfe_try\<close>; the handler
  logs and returns \<^verbatim>\<open>None\<close>. Before each return of a value the body logs it with the
  format \<^verbatim>\<open>:,.0f\<close>.
\<close>

definition calculate_fcfe_try :: "financial_data \<Rightarrow> py_exception + real option" where
  "calculate_fcfe_try fd =
     (case truthy_and_positive (dict_get fd ''free_cash_flow'' PNone) of
        Some fcf \<Rightarrow> bind_exc (to_float fcf) (\<lambda>logged. Inr (Some fcf))
      | None \<Rightarrow>
          (let net_income = dict_get fd ''net_income'' (PNum 0);
               capex = dict_get fd ''capital_expenditure'' (PNum 0);
               change_nwc = dict_get fd ''change_in_nwc'' (PNum 0)
           in bind_exc (as_num net_income) (\<lambda>ni.
              bind_exc (as_num capex) (\<lambda>cx.
              bind_exc (as_num change_nwc) (\<lambda>nwc.
                (let fcfe = ni + cx - nwc in
                 if fcfe > 0 then bind_exc (to_float fcfe) (\<lambda>logged. Inr (Some fcfe))
                 else
                   (let operating_cf = dict_get fd ''operating_cash_flow'' (PNum 0) in
                    if truthy operating_cf \<and> truthy capex then
                      bind_exc (as_num operating_cf) (\<lambda>ocf.
                        (let fcfe = ocf + cx in
                         if fcfe > 0 then bind_exc (to_float fcfe) (\<lambda>logged. Inr (Some fcfe))
                         else Inr None))
                    else Inr None)))))))"

definition calculate_fcfe :: "financial_data \<Rightarrow> real option" where
  "calculate_fcfe fd = (case calculate_fcfe_try fd of Inl e \<Rightarrow> None | Inr v \<Rightarrow> v)"

text \<open>\<^verbatim>\<open>calculate_cost_of_equity\<close> (CAPM). The caller passes the dictionary's beta.\<close>

definition calculate_cost_of_equity :: "real \<Rightarrow> pyval \<Rightarrow> real \<Rightarrow> py_exception + real" where
  "calculate_cost_of_equity risk_free_rate beta market_return =
     (let market_risk_premium = market_return - risk_free_rate in
      bind_exc (as_num beta) (\<lambda>b. Inr (risk_free_rate + b * market_risk_premium)))"

text \<open>
  \<^verbatim>\<open>project_fcfe\<close>: the loop \<^verbatim>\<open>for year in range(1, years + 1)\<close>, with the running
  value and the list built so far.
\<close>

function project_fcfe_loop :: "real \<Rightarrow> int \<Rightarrow> int \<Rightarrow> real \<Rightarrow> real list \<Rightarrow> real list" where
  "project_fcfe_loop growth_rate years year fcfe projections =
     (if year \<le> years
      then (let fcfe' = fcfe * (1 + growth_rate)
            in project_fcfe_loop growth_rate years (year + 1) fcfe' (projections @ [fcfe']))
      else projections)"
  by pat_completeness auto
termination
  by (relation "measure (\<lambda>(g, years, year, f, ps). nat (years + 1 - year))") auto

definition project_fcfe :: "real \<Rightarrow> real \<Rightarrow> int \<Rightarrow> real list" where
  "project_fcfe current_fcfe growth_rate years = project_fcfe_loop growth_rate years 1 current_fcfe []"

text \<open>
  \<^verbatim>\<open>calculate_terminal_value\<close> (Gordon growth), with the adjustment of the terminal
  growth rate when the cost of equity does not exceed it.
\<close>

definition calculate_terminal_value :: "real \<Rightarrow> real \<Rightarrow> real \<Rightarrow> py_exception + real" where
  "calculate_terminal_value final_fcfe terminal_growth cost_of_equity =
     (let terminal_growth' =
            (if cost_of_equity \<le> terminal_growth then cost_of_equity * 0.5 else terminal_growth)
      in py_div (final_fcfe * (1 + terminal_growth')) (cost_of_equity - terminal_growth'))"

text \<open>
  \<^verbatim>\<open>calculate_present_value\<close>: the loop over \<^verbatim>\<open>enumerate(future_cash_flows, start=1)\<close>
  with the year and the running sum, then the discounted terminal value. The cash flows
  and the cost of equity are floats.
\<close>

fun present_value_loop :: "real \<Rightarrow> nat \<Rightarrow> real list \<Rightarrow> real \<Rightarrow> py_exception + real" where
  "present_value_loop cost_of_equity year [] pv_cash_flows = Inr pv_cash_flows"
| "present_value_loop cost_of_equity year (fcfe # rest) pv_cash_flows =
     bind_exc (py_pow (1 + cost_of_equity) year) (\<lambda>discount.
     bind_exc (py_div fcfe discount) (\<lambda>pv.
       present_value_loop cost_of_equity (Suc year) rest (pv_cash_flows + pv)))"

definition calculate_present_value :: "real list \<Rightarrow> real \<Rightarrow> real \<Rightarrow> py_exception + real" where
  "calculate_present_value future_cash_flows terminal_value cost_of_equity =
     bind_exc (present_value_loop cost_of_equity 1 future_cash_flows 0) (\<lambda>pv_cash_flows.
       (let terminal_year = length future_cash_flows in
        bind_exc (py_pow (1 + cost_of_equity) terminal_year) (\<lambda>discount.
        bind_exc (py_div terminal_value discount) (\<lambda>pv_terminal.
          Inr (pv_cash_flows + pv_terminal)))))"

text \<open>
  \<^verbatim>\<open>calculate_per_share_value\<close>: cash and debt are accepted and not used. After the
  division three log lines format the equity value, the shares outstanding and the
  value per share with float formats.
\<close>

definition calculate_per_share_value ::
  "real \<Rightarrow> real \<Rightarrow> real \<Rightarrow> real \<Rightarrow> py_exception + real" where
  "calculate_per_share_value total_equity_value shares_outstanding cash debt =
     (let equity_value = total_equity_value;
          per_share_value = safe_divide equity_value shares_outstanding 0
      in bind_exc (to_float equity_value) (\<lambda>logged.
         bind_exc (to_float shares_outstanding) (\<lambda>logged.
         bind_exc (to_float per_share_value) (\<lambda>logged. Inr per_share_value))))"

section \<open>models/dcf\_model.py\<close>

text \<open>The model object: \<^verbatim>\<open>self.projection_years\<close> and \<^verbatim>\<open>self.terminal_growth_rate\<close>.\<close>

record FCFEDCFModel =
  projection_years :: int
  terminal_growth_rate :: real

text \<open>The defaults of \<^verbatim>\<open>__init__\<close>.\<close>

definition default_model :: FCFEDCFModel where
  "default_model = \<lparr>projection_years = 5, terminal_growth_rate = 0.025\<rparr>"

text \<open>
  The result dictionary. An entry of \<^verbatim>\<open>details\<close> is a number or the list of projected
  values; an entry of \<^verbatim>\<open>assumptions\<close> is a number or the beta as the input holds it;
  \<^verbatim>\<open>error\<close> is one of the two fixed messages or \<^verbatim>\<open>str(e)\<close> of the exception
  caught by the handler.
\<close>

datatype detail = DNum real | DList "real list"

datatype valuation_error = Message string | Raised py_exception

record valuation_result =
  fair_value :: "real option"
  details :: "string \<rightharpoonup> detail"
  assumptions :: "string \<rightharpoonup> pyval"
  error :: "valuation_error option"

text \<open>
  \<^verbatim>\<open>calculate_fair_value\<close>. An exception raised inside the \<^verbatim>\<open>try\<close> leaves the
  result as it was built so far and stores the exception in \<^verbatim>\<open>error\<close>; the two
  validity checks return early with their message. The conditions
  \<^verbatim>\<open>not x or x <= 0\<close> and \<^verbatim>\<open>if current_price\<close> are written out by cases on the value.
  The fair value is a float, so the upside step converts the current price to a float.
\<close>

definition calculate_fair_value ::
  "FCFEDCFModel \<Rightarrow> financial_data \<Rightarrow> real \<Rightarrow> real \<Rightarrow> real option \<Rightarrow> valuation_result" where
  "calculate_fair_value self fd risk_free_rate market_return custom_growth_rate =
     (let result = \<lparr>fair_value = None, details = Map.empty, assumptions = Map.empty, error = None\<rparr> in
      case calculate_fcfe fd of
        None \<Rightarrow> result\<lparr>error := Some (Message ''Could not calculate valid FCFE'')\<rparr>
      | Some current_fcfe \<Rightarrow> (
      if current_fcfe = 0 \<or> current_fcfe \<le> 0
      then result\<lparr>error := Some (Message ''Could not calculate valid FCFE'')\<rparr>
      else
      let result = result\<lparr>details := (details result)(''current_fcfe'' \<mapsto> DNum current_fcfe)\<rparr> in
      case (case custom_growth_rate of
              Some g \<Rightarrow> Inr g
            | None \<Rightarrow>
                bind_exc (as_num (dict_get fd ''historical_growth_rate'' (PNum 5))) (\<lambda>h.
                bind_exc (py_div h 100) (\<lambda>g. Inr (max (min g 0.25) (- 0.05))))) of
        Inl e \<Rightarrow> result\<lparr>error := Some (Raised e)\<rparr>
      | Inr growth_rate \<Rightarrow> (
      let result = result\<lparr>assumptions :=
                     (assumptions result)(''growth_rate'' \<mapsto> PNum (growth_rate * 100))\<rparr>;
          beta = dict_get fd ''beta'' (PNum 1)
      in
      case calculate_cost_of_equity risk_free_rate beta market_return of
        Inl e \<Rightarrow> result\<lparr>error := Some (Raised e)\<rparr>
      | Inr cost_of_equity \<Rightarrow> (
      let result = result\<lparr>assumptions := (assumptions result)
                     (''cost_of_equity'' \<mapsto> PNum (cost_of_equity * 100),
                      ''beta'' \<mapsto> beta,
                      ''risk_free_rate'' \<mapsto> PNum (risk_free_rate * 100),
                      ''market_return'' \<mapsto> PNum (market_return * 100))\<rparr>;
          projected_fcfe = project_fcfe current_fcfe growth_rate (projection_years self);
          result = result\<lparr>details := (details result)(''projected_fcfe'' \<mapsto> DList projected_fcfe)\<rparr>
      in
      case (if projected_fcfe = [] then Inl IndexError
            else calculate_terminal_value (last projected_fcfe) (terminal_growth_rate self)
                   cost_of_equity) of
        Inl e \<Rightarrow> result\<lparr>error := Some (Raised e)\<rparr>
      | Inr terminal_value \<Rightarrow> (
      let result = result\<lparr>details := (details result)(''terminal_value'' \<mapsto> DNum terminal_value),
                          assumptions := (assumptions result)
                            (''terminal_growth_rate'' \<mapsto> PNum (terminal_growth_rate self * 100))\<rparr>
      in
      case calculate_present_value projected_fcfe terminal_value cost_of_equity of
        Inl e \<Rightarrow> result\<lparr>error := Some (Raised e)\<rparr>
      | Inr total_pv \<Rightarrow> (
      let result = result\<lparr>details := (details result)(''total_present_value'' \<mapsto> DNum total_pv)\<rparr> in
      case dict_get fd ''shares_outstanding'' PNone of
        PNone \<Rightarrow> result\<lparr>error := Some (Message ''Invalid shares outstanding'')\<rparr>
      | PNum shares_outstanding \<Rightarrow> (
      if shares_outstanding = 0 \<or> shares_outstanding \<le> 0
      then result\<lparr>error := Some (Message ''Invalid shares outstanding'')\<rparr>
      else
      case calculate_per_share_value total_pv shares_outstanding 0 0 of
        Inl e \<Rightarrow> result\<lparr>error := Some (Raised e)\<rparr>
      | Inr fv \<Rightarrow> (
      let result = result\<lparr>fair_value := Some fv,
                          details := (details result)(''shares_outstanding'' \<mapsto> DNum shares_outstanding)\<rparr>
      in
      case dict_get fd ''current_price'' PNone of
        PNone \<Rightarrow> result
      | PNum current_price \<Rightarrow> (
      if current_price = 0 then result
      else
      let result = result\<lparr>details := (details result)(''current_price'' \<mapsto> DNum current_price)\<rparr> in
      case bind_exc (to_float current_price) (\<lambda>price. py_div (fv - price) price) of
        Inl e \<Rightarrow> result\<lparr>error := Some (Raised e)\<rparr>
      | Inr q \<Rightarrow> result\<lparr>details := (details result)(''upside_percentage'' \<mapsto> DNum (q * 100))\<rparr>)))))))))"

text \<open>
  \<^verbatim>\<open>sensitivity_analysis\<close>: one entry of \<^verbatim>\<open>growth_sensitivity\<close> per growth rate, and
  the loop over the growth rates with the results built so far.
\<close>

record scenario =
  scenario_growth_rate :: real
  scenario_fair_value :: "real option"

record sensitivity_results =
  growth_sensitivity :: "scenario list"
  base_case :: "valuation_result option"

fun sensitivity_loop ::
  "FCFEDCFModel \<Rightarrow> financial_data \<Rightarrow> real \<Rightarrow> real \<Rightarrow> real list \<Rightarrow> sensitivity_results
     \<Rightarrow> sensitivity_results" where
  "sensitivity_loop self fd risk_free_rate market_return [] results = results"
| "sensitivity_loop self fd risk_free_rate market_return (gr # rest) results =
     (let valuation = calculate_fair_value self fd risk_free_rate market_return (Some gr);
          results = results\<lparr>growth_sensitivity := growth_sensitivity results @
                      [\<lparr>scenario_growth_rate = gr * 100,
                        scenario_fair_value = fair_value valuation\<rparr>]\<rparr>;
          results = (if gr = 0.05 then results\<lparr>base_case := Some valuation\<rparr> else results)
      in sensitivity_loop self fd risk_free_rate market_return rest results)"

definition sensitivity_analysis ::
  "FCFEDCFModel \<Rightarrow> financial_data \<Rightarrow> real \<Rightarrow> real \<Rightarrow> real list option \<Rightarrow> sensitivity_results" where
  "sensitivity_analysis self fd risk_free_rate market_return growth_rates =
     (let growth_rates' = (case growth_rates of
                             None \<Rightarrow> [0.03, 0.05, 0.07, 0.10, 0.15]
                           | Some rates \<Rightarrow> rates);
          results = \<lparr>growth_sensitivity = [], base_case = None\<rparr>
      in sensitivity_loop self fd risk_free_rate market_return growth_rates' results)"

section \<open>The stated FCFE policy\<close>

text \<open>
  A field is present when the dictionary holds a number for it. The component sum reads
  a field that is not present as 0, as the defaults of the lookups do.
\<close>

definition field_value :: "financial_data \<Rightarrow> string \<Rightarrow> real option" where
  "field_value fd k = (case fd k of Some (PNum x) \<Rightarrow> Some x | _ \<Rightarrow> None)"

definition field_or_zero :: "financial_data \<Rightarrow> string \<Rightarrow> real" where
  "field_or_zero fd k = (case field_value fd k of Some x \<Rightarrow> x | None \<Rightarrow> 0)"

text \<open>The value is present and greater than zero.\<close>

definition is_positive :: "real option \<Rightarrow> bool" where
  "is_positive v = (case v of Some x \<Rightarrow> 0 < x | None \<Rightarrow> False)"

text \<open>
  The policy as the specification words it: (a) the free cash flow when present and
  positive; (b) else the component sum when positive; (c) else, when operating cash flow
  and capital expenditure are both present, their sum when positive; (d) else absent.
\<close>

definition computeFCFE_spec :: "financial_data \<Rightarrow> real option" where
  "computeFCFE_spec fd =
     (let components = field_or_zero fd ''net_income'' + field_or_zero fd ''capital_expenditure''
                         - field_or_zero fd ''change_in_nwc''
      in if is_positive (field_value fd ''free_cash_flow'') then field_value fd ''free_cash_flow''
         else if 0 < components then Some components
         else (case (field_value fd ''operating_cash_flow'', field_value fd ''capital_expenditure'') of
                 (Some ocf, Some capex) \<Rightarrow> if 0 < ocf + capex then Some (ocf + capex) else None
               | _ \<Rightarrow> None))"

section \<open>Whole amounts\<close>

text \<open>
  A field holds a whole amount when it is missing or a whole number of magnitude at most
  \<open>2 ^ 50\<close>: sums and differences of such numbers are exact in double precision, as ints
  and as floats. An optional one may also hold \<^verbatim>\<open>None\<close>.
\<close>

definition amount_field :: "financial_data \<Rightarrow> string \<Rightarrow> bool" where
  "amount_field fd k =
     (case fd k of None \<Rightarrow> True | Some PNone \<Rightarrow> False
      | Some (PNum x) \<Rightarrow> x \<in> \<int> \<and> \<bar>x\<bar> \<le> 2 ^ 50)"

definition optional_amount_field :: "financial_data \<Rightarrow> string \<Rightarrow> bool" where
  "optional_amount_field fd k =
     (case fd k of None \<Rightarrow> True | Some PNone \<Rightarrow> True
      | Some (PNum x) \<Rightarrow> x \<in> \<int> \<and> \<bar>x\<bar> \<le> 2 ^ 50)"

section \<open>Well-formed records\<close>

text \<open>
  A record has well-formed numeric fields when none of the keys the valuation reads
  holds \<^verbatim>\<open>None\<close>: each is missing or a number.
\<close>

definition numeric_fields :: "financial_data \<Rightarrow> bool" where
  "numeric_fields fd =
     list_all (\<lambda>k. fd k \<noteq> Some PNone)
       [''free_cash_flow'', ''net_income'', ''capital_expenditure'', ''change_in_nwc'',
        ''operating_cash_flow'', ''historical_growth_rate'', ''beta'', ''shares_outstanding'',
        ''current_price'']"

section \<open>The calculator's operations\<close>

text \<open>Magnitudes inside the float range: no conversion and no power raises there.\<close>

lemma float_limit_above: "2 ^ 1001 < float_limit"
  by (simp add: float_limit_def)

lemma to_float_in_range: "\<bar>x\<bar> \<le> 2 ^ 1001 \<Longrightarrow> to_float x = Inr x"
  using float_limit_above by (simp add: to_float_def)

lemma py_pow_in_range:
  assumes "1 / 2 ^ 500 \<le> \<bar>b\<bar> ^ n" and "\<bar>b\<bar> ^ n \<le> 2 ^ 500"
  shows "py_pow b n = Inr (b ^ n)" and "b ^ n \<noteq> 0"
proof -
  have lo: "(1::real) / 2 ^ 1075 < 1 / 2 ^ 500"
    by (simp add: field_simps)
  have hi: "(2::real) ^ 500 < float_limit"
    using float_limit_above by (simp add: float_limit_def)
  have a: "\<bar>b ^ n\<bar> = \<bar>b\<bar> ^ n"
    by (simp add: power_abs)
  from assms lo hi show "py_pow b n = Inr (b ^ n)"
    by (simp add: py_pow_def a)
  from assms(1) have "0 < \<bar>b\<bar> ^ n"
    by (rule less_le_trans [rotated]) simp
  then show "b ^ n \<noteq> 0"
    by auto
qed

text \<open>
  With a zero denominator \<^verbatim>\<open>safe_divide\<close> returns the default it is given, and with
  zero shares outstanding and an equity value inside the float range the value per share
  is the default 0.0.
\<close>

lemma safe_divide_zero: "safe_divide numerator 0 dflt = dflt"
  by (simp add: safe_divide_def safe_divide_try_def)

lemma per_share_value_zero_shares_in_range:
  "\<bar>total_equity_value\<bar> < float_limit \<Longrightarrow>
   calculate_per_share_value total_equity_value 0 cash debt = Inr 0"
  using float_limit_above
  by (simp add: calculate_per_share_value_def safe_divide_zero bind_exc_def to_float_def)


text \<open>
  Claim C5, as stated, fails: with a cost of equity of 0 and the default terminal growth
  rate 0.025 the guard fires, the substituted growth rate is 0, and the division is by
  zero, so no terminal value is returned.
\<close>

theorem terminal_value_zero_cost_of_equity:
  "calculate_terminal_value 100 0.025 0 = Inl ZeroDivisionError"
  by (simp add: calculate_terminal_value_def py_div_def)

text \<open>
  Claim C5, amended. For a cost of equity \<open>r\<close> above the terminal growth rate \<open>g\<close> the
  terminal value is \<open>f * (1 + g) / (r - g)\<close>. For \<open>r \<le> g\<close> and \<open>r \<noteq> 0\<close> the growth rate
  is replaced by \<open>r * 0.5\<close> before the division and the value is
  \<open>f * (1 + r * 0.5) / (r - r * 0.5)\<close>; with \<open>r = 0.02\<close> and \<open>g = 0.025\<close> the division is
  by \<open>0.02 - 0.01\<close>.
\<close>

theorem terminal_value_formula:
  "(g < r \<longrightarrow> calculate_terminal_value f g r = Inr (f * (1 + g) / (r - g)))
   \<and> (r \<le> g \<and> r \<noteq> 0 \<longrightarrow>
        calculate_terminal_value f g r = Inr (f * (1 + r * 0.5) / (r - r * 0.5)))
   \<and> calculate_terminal_value f 0.025 0.02 = Inr (f * (1 + 0.01) / (0.02 - 0.01))"
  by (simp add: calculate_terminal_value_def py_div_def)

theorem terminal_value_formula_witness:
  "(0.025::real) < 0.10 \<and> calculate_terminal_value 127.63 0.025 0.10 = Inr (127.63 * 1.025 / 0.075)
   \<and> (0.02::real) \<le> 0.025 \<and> (0.02::real) \<noteq> 0
   \<and> calculate_terminal_value 127.63 0.025 0.02 = Inr (127.63 * 1.01 / 0.01)"
  using terminal_value_formula [of "0.025" "0.10" "127.63"]
    terminal_value_formula [of "0.02" "0.025" "127.63"]
  by simp

text \<open>
  The loop of \<^verbatim>\<open>calculate_present_value\<close>, started at any year and running sum, when
  the powers of its years stay inside the float range.
\<close>

lemma present_value_loop_sum:
  assumes "\<forall>t \<in> {y..<y + length cfs}. 1 / 2 ^ 500 \<le> \<bar>1 + r\<bar> ^ t \<and> \<bar>1 + r\<bar> ^ t \<le> 2 ^ 500"
  shows "present_value_loop r y cfs acc
           = Inr (acc + (\<Sum>i<length cfs. cfs ! i / (1 + r) ^ (y + i)))"
  using assms
proof (induction cfs arbitrary: y acc)
  case Nil
  then show ?case by simp
next
  case (Cons c cfs)
  from Cons.prems have y: "1 / 2 ^ 500 \<le> \<bar>1 + r\<bar> ^ y" "\<bar>1 + r\<bar> ^ y \<le> 2 ^ 500"
    by simp_all
  from Cons.prems
  have rest: "\<forall>t \<in> {Suc y..<Suc y + length cfs}. 1 / 2 ^ 500 \<le> \<bar>1 + r\<bar> ^ t \<and> \<bar>1 + r\<bar> ^ t \<le> 2 ^ 500"
    by simp
  have "(\<Sum>i<Suc (length cfs). (c # cfs) ! i / (1 + r) ^ (y + i))
        = c / (1 + r) ^ y + (\<Sum>i<length cfs. cfs ! i / (1 + r) ^ (Suc y + i))"
    by (simp add: sum.lessThan_Suc_shift del: sum.lessThan_Suc)
  then show ?case
    using py_pow_in_range [OF y]
    by (simp add: Cons.IH [OF rest] bind_exc_def py_div_def add.assoc del: power_Suc)
qed

text \<open>
  Claim C7, as stated, fails: with a cost of equity of -1 the discount factor of every
  year is 0, and the first division of the loop raises.
\<close>

theorem present_value_zero_discount_base:
  "calculate_present_value [100] 1000 (- 1) = Inl ZeroDivisionError"
  by (simp add: calculate_present_value_def bind_exc_def py_div_def py_pow_def float_limit_def)

text \<open>
  Claim C7, amended. For every projected sequence of length \<open>N\<close>, terminal value and cost
  of equity \<open>r\<close> such that the powers \<open>(1 + r) ^ t\<close>, \<open>t = 1..N\<close>, have a magnitude
  between \<open>2 ^ -500\<close> and \<open>2 ^ 500\<close>, with at most \<open>2 ^ 20\<close> elements, each of them and
  the terminal value of magnitude at most \<open>2 ^ 500\<close> (so that no power, quotient or sum
  leaves the double range), the present value is the sum over \<open>t = 1..N\<close> of the
  \<open>t\<close>-th element divided by \<open>(1 + r) ^ t\<close>, plus the terminal value divided by
  \<open>(1 + r) ^ N\<close>: the terminal value is discounted at the horizon \<open>N\<close> of the last
  projected year.
\<close>

theorem present_value_formula:
  assumes "\<forall>t \<in> {1..length cfs}. 1 / 2 ^ 500 \<le> \<bar>1 + r\<bar> ^ t \<and> \<bar>1 + r\<bar> ^ t \<le> 2 ^ 500"
    and "length cfs \<le> 2 ^ 20"
    and "\<forall>x \<in> set cfs. \<bar>x\<bar> \<le> 2 ^ 500"
    and "\<bar>tv\<bar> \<le> 2 ^ 500"
  shows "calculate_present_value cfs tv r
     = Inr ((\<Sum>t = 1..length cfs. cfs ! (t - 1) / (1 + r) ^ t) + tv / (1 + r) ^ length cfs)"
proof -
  from assms(1)
  have loop: "\<forall>t \<in> {Suc 0..<Suc 0 + length cfs}. 1 / 2 ^ 500 \<le> \<bar>1 + r\<bar> ^ t \<and> \<bar>1 + r\<bar> ^ t \<le> 2 ^ 500"
    by auto
  have lp: "present_value_loop r (Suc 0) cfs 0
              = Inr (0 + (\<Sum>i<length cfs. cfs ! i / (1 + r) ^ (Suc 0 + i)))"
    by (rule present_value_loop_sum [OF loop])
  have one: "(1::real) / 2 ^ 500 \<le> 1" "(1::real) \<le> 2 ^ 500"
    by simp_all
  have last: "1 / 2 ^ 500 \<le> \<bar>1 + r\<bar> ^ length cfs \<and> \<bar>1 + r\<bar> ^ length cfs \<le> 2 ^ 500"
  proof (cases "length cfs = 0")
    case True
    with one show ?thesis by simp
  next
    case False
    then have "length cfs \<in> {1..length cfs}" by (cases cfs) simp_all
    with assms(1) show ?thesis by (rule bspec)
  qed
  have "(\<Sum>i<length cfs. cfs ! i / (1 + r) ^ (Suc 0 + i))
        = (\<Sum>t = 1..length cfs. cfs ! (t - 1) / (1 + r) ^ t)"
    by (rule sum.reindex_bij_witness [where i = "\<lambda>t. t - 1" and j = Suc]) auto
  then show ?thesis
    using py_pow_in_range [OF conjunct1 [OF last] conjunct2 [OF last]]
    by (simp add: calculate_present_value_def lp bind_exc_def py_div_def del: power_Suc)
qed

theorem present_value_formula_witness:
  "calculate_present_value [125, 250] 625 0.25 = Inr 660"
proof -
  have p: "\<forall>t \<in> {1..length [125, 250::real]}.
             1 / 2 ^ 500 \<le> \<bar>1 + (0.25::real)\<bar> ^ t \<and> \<bar>1 + (0.25::real)\<bar> ^ t \<le> 2 ^ 500"
  proof
    fix t :: nat assume "t \<in> {1..length [125, 250::real]}"
    then have "t = 1 \<or> t = 2" by auto
    moreover have "(1::real) / 2 ^ 500 \<le> 5 / 4" "(5::real) / 4 \<le> 2 ^ 500"
      "(1::real) / 2 ^ 500 \<le> 25 / 16" "(25::real) / 16 \<le> 2 ^ 500"
      by simp_all
    ultimately show "1 / 2 ^ 500 \<le> \<bar>1 + (0.25::real)\<bar> ^ t \<and> \<bar>1 + (0.25::real)\<bar> ^ t \<le> 2 ^ 500"
      by (auto simp: power2_eq_square)
  qed
  have l: "length [125, 250::real] \<le> 2 ^ 20" by simp
  have e: "\<forall>x \<in> set [125, 250::real]. \<bar>x\<bar> \<le> 2 ^ 500" by simp
  have t: "\<bar>625::real\<bar> \<le> 2 ^ 500" by simp
  show ?thesis
    using present_value_formula [OF p l e t]
    by (simp add: sum.atLeast_Suc_atMost)
qed

text \<open>
  Claim C3, as stated, fails: with a net income of -100, a capital expenditure of 0 and
  an operating cash flow of 10, both fields of step (c) are present and their sum is
  positive, so the stated policy gives 10; the code tests the two values for truth, a
  zero counts as missing, and the result is absent.
\<close>

theorem fcfe_zero_capex_not_used:
  "calculate_fcfe [''net_income'' \<mapsto> PNum (- 100), ''capital_expenditure'' \<mapsto> PNum 0,
                   ''operating_cash_flow'' \<mapsto> PNum 10] = None
   \<and> computeFCFE_spec [''net_income'' \<mapsto> PNum (- 100), ''capital_expenditure'' \<mapsto> PNum 0,
                   ''operating_cash_flow'' \<mapsto> PNum 10] = Some 10"
  by (simp add: calculate_fcfe_def calculate_fcfe_try_def dict_get_def bind_exc_def
      computeFCFE_spec_def field_value_def field_or_zero_def is_positive_def)

text \<open>A field that is missing or a number, as an operand and as a condition.\<close>

lemma field_cases:
  "fd k \<noteq> Some PNone \<Longrightarrow>
   as_num (dict_get fd k (PNum 0)) = Inr (field_or_zero fd k)
   \<and> truthy (dict_get fd k (PNum 0)) = (field_or_zero fd k \<noteq> 0)"
  by (cases "fd k") (auto simp: dict_get_def field_or_zero_def field_value_def split: pyval.splits)

text \<open>Whole amounts, their sums and differences are logged without an exception.\<close>

lemma amount_field_bound:
  "amount_field fd k \<Longrightarrow> fd k \<noteq> Some PNone \<and> \<bar>field_or_zero fd k\<bar> \<le> 2 ^ 50"
  by (auto simp: amount_field_def field_or_zero_def field_value_def
      split: option.splits pyval.splits)

lemma optional_amount_field_bound:
  "optional_amount_field fd k \<Longrightarrow> field_value fd k = Some x \<Longrightarrow> \<bar>x\<bar> \<le> 2 ^ 50"
  by (auto simp: optional_amount_field_def field_value_def split: option.splits pyval.splits)

lemma to_float_sum:
  assumes "\<bar>a\<bar> \<le> 2 ^ 50" and "\<bar>b\<bar> \<le> 2 ^ 50" and "\<bar>c\<bar> \<le> 2 ^ 50"
  shows "to_float (a + b - c) = Inr (a + b - c)" and "to_float (a + b) = Inr (a + b)"
    and "to_float a = Inr a"
proof -
  have k: "(4::real) * 2 ^ 50 \<le> 2 ^ 1001"
    by simp
  have "\<bar>a + b - c\<bar> \<le> 4 * 2 ^ 50" "\<bar>a + b\<bar> \<le> 4 * 2 ^ 50" "\<bar>a\<bar> \<le> 4 * 2 ^ 50"
    using assms by linarith+
  with k have "\<bar>a + b - c\<bar> \<le> 2 ^ 1001" "\<bar>a + b\<bar> \<le> 2 ^ 1001" "\<bar>a\<bar> \<le> 2 ^ 1001"
    by linarith+
  then show "to_float (a + b - c) = Inr (a + b - c)" and "to_float (a + b) = Inr (a + b)"
    and "to_float a = Inr a"
    by (simp_all add: to_float_in_range)
qed

text \<open>
  Claim C3, amended. A free cash flow of 500 is returned whatever the other fields hold,
  and the record with free cash flow -10, net income 200, capital expenditure -50 and
  change in working capital 20 gives 130. For every record whose net income, capital
  expenditure and change in working capital are each missing or a whole number of
  magnitude at most \<open>2 ^ 50\<close>, and whose free cash flow and operating cash flow are each
  missing, \<^verbatim>\<open>None\<close> or such a number:
  (a) the free cash flow is returned when present and positive; (b) else the component
  sum when positive; (c) else, when operating cash flow and capital expenditure are both
  present and both non-zero, their sum when positive; (d) else the result is absent.
\<close>

theorem calculate_fcfe_priority:
  "(fd ''free_cash_flow'' = Some (PNum 500) \<longrightarrow> calculate_fcfe fd = Some 500)
   \<and> calculate_fcfe [''free_cash_flow'' \<mapsto> PNum (- 10), ''net_income'' \<mapsto> PNum 200,
                      ''capital_expenditure'' \<mapsto> PNum (- 50), ''change_in_nwc'' \<mapsto> PNum 20] = Some 130
   \<and> (amount_field fd ''net_income'' \<and> amount_field fd ''capital_expenditure''
        \<and> amount_field fd ''change_in_nwc'' \<and> optional_amount_field fd ''free_cash_flow''
        \<and> optional_amount_field fd ''operating_cash_flow'' \<longrightarrow>
      calculate_fcfe fd =
        (let components = field_or_zero fd ''net_income'' + field_or_zero fd ''capital_expenditure''
                            - field_or_zero fd ''change_in_nwc''
         in if is_positive (field_value fd ''free_cash_flow'') then field_value fd ''free_cash_flow''
            else if 0 < components then Some components
            else (case (field_value fd ''operating_cash_flow'', field_value fd ''capital_expenditure'') of
                    (Some ocf, Some capex) \<Rightarrow>
                      if ocf \<noteq> 0 \<and> capex \<noteq> 0 \<and> 0 < ocf + capex then Some (ocf + capex) else None
                  | _ \<Rightarrow> None)))"
proof (intro conjI impI)
  assume "fd ''free_cash_flow'' = Some (PNum 500)"
  then show "calculate_fcfe fd = Some 500"
    by (simp add: calculate_fcfe_def calculate_fcfe_try_def dict_get_def bind_exc_def
        to_float_in_range)
next
  show "calculate_fcfe [''free_cash_flow'' \<mapsto> PNum (- 10), ''net_income'' \<mapsto> PNum 200,
                      ''capital_expenditure'' \<mapsto> PNum (- 50), ''change_in_nwc'' \<mapsto> PNum 20] = Some 130"
    by (simp add: calculate_fcfe_def calculate_fcfe_try_def dict_get_def bind_exc_def
        to_float_in_range)
next
  assume a: "amount_field fd ''net_income'' \<and> amount_field fd ''capital_expenditure''
        \<and> amount_field fd ''change_in_nwc'' \<and> optional_amount_field fd ''free_cash_flow''
        \<and> optional_amount_field fd ''operating_cash_flow''"
  note b = amount_field_bound [of fd "''net_income''"]
    amount_field_bound [of fd "''capital_expenditure''"]
    amount_field_bound [of fd "''change_in_nwc''"]
  from a b have n: "fd ''net_income'' \<noteq> Some PNone" "fd ''capital_expenditure'' \<noteq> Some PNone"
    "fd ''change_in_nwc'' \<noteq> Some PNone"
    and bd: "\<bar>field_or_zero fd ''net_income''\<bar> \<le> 2 ^ 50"
      "\<bar>field_or_zero fd ''capital_expenditure''\<bar> \<le> 2 ^ 50"
      "\<bar>field_or_zero fd ''change_in_nwc''\<bar> \<le> 2 ^ 50"
    by blast+
  note f = field_cases [of fd "''net_income''", OF n(1)]
    field_cases [of fd "''capital_expenditure''", OF n(2)]
    field_cases [of fd "''change_in_nwc''", OF n(3)]
  have fcf: "truthy_and_positive (dict_get fd ''free_cash_flow'' PNone)
             = (if is_positive (field_value fd ''free_cash_flow'')
                then field_value fd ''free_cash_flow'' else None)"
    by (auto simp: dict_get_def field_value_def is_positive_def split: option.splits pyval.splits)
  have ocf: "truthy (dict_get fd ''operating_cash_flow'' (PNum 0))
               = (case field_value fd ''operating_cash_flow'' of Some x \<Rightarrow> x \<noteq> 0 | None \<Rightarrow> False)"
    "truthy (dict_get fd ''operating_cash_flow'' (PNum 0)) \<Longrightarrow>
       as_num (dict_get fd ''operating_cash_flow'' (PNum 0))
         = Inr (field_or_zero fd ''operating_cash_flow'')"
    by (auto simp: dict_get_def field_value_def field_or_zero_def split: option.splits pyval.splits)
  have capex: "field_value fd ''capital_expenditure'' = None \<Longrightarrow> field_or_zero fd ''capital_expenditure'' = 0"
    "\<And>x. field_value fd ''capital_expenditure'' = Some x \<Longrightarrow> field_or_zero fd ''capital_expenditure'' = x"
    "\<And>x. field_value fd ''operating_cash_flow'' = Some x \<Longrightarrow> field_or_zero fd ''operating_cash_flow'' = x"
    by (simp_all add: field_or_zero_def)
  have log_fcf: "to_float x = Inr x" if "field_value fd ''free_cash_flow'' = Some x" for x
    using optional_amount_field_bound [OF _ that] a to_float_sum(3) [of x 0 0] by simp
  have log_sum: "to_float (field_or_zero fd ''net_income'' + field_or_zero fd ''capital_expenditure''
                    - field_or_zero fd ''change_in_nwc'')
                 = Inr (field_or_zero fd ''net_income'' + field_or_zero fd ''capital_expenditure''
                    - field_or_zero fd ''change_in_nwc'')"
    using bd by (rule to_float_sum(1))
  have log_ocf: "to_float (x + field_or_zero fd ''capital_expenditure'')
                   = Inr (x + field_or_zero fd ''capital_expenditure'')"
    if "field_value fd ''operating_cash_flow'' = Some x" for x
    using optional_amount_field_bound [OF _ that] a bd(2) to_float_sum(2) [of x _ 0] by simp
  show "calculate_fcfe fd =
        (let components = field_or_zero fd ''net_income'' + field_or_zero fd ''capital_expenditure''
                            - field_or_zero fd ''change_in_nwc''
         in if is_positive (field_value fd ''free_cash_flow'') then field_value fd ''free_cash_flow''
            else if 0 < components then Some components
            else (case (field_value fd ''operating_cash_flow'', field_value fd ''capital_expenditure'') of
                    (Some ocf, Some capex) \<Rightarrow>
                      if ocf \<noteq> 0 \<and> capex \<noteq> 0 \<and> 0 < ocf + capex then Some (ocf + capex) else None
                  | _ \<Rightarrow> None))"
    using n f log_sum
    by (auto simp: calculate_fcfe_def calculate_fcfe_try_def Let_def bind_exc_def fcf ocf capex
        log_fcf log_ocf is_positive_def split: option.splits)
qed

theorem calculate_fcfe_priority_witness:
  "calculate_fcfe [''net_income'' \<mapsto> PNum (- 100), ''capital_expenditure'' \<mapsto> PNum (- 5),
                   ''operating_cash_flow'' \<mapsto> PNum 10] = Some 5
   \<and> calculate_fcfe [''free_cash_flow'' \<mapsto> PNum 500, ''net_income'' \<mapsto> PNone] = Some 500"
  using calculate_fcfe_priority [of "[''net_income'' \<mapsto> PNum (- 100),
      ''capital_expenditure'' \<mapsto> PNum (- 5), ''operating_cash_flow'' \<mapsto> PNum 10]"]
    calculate_fcfe_priority [of "[''free_cash_flow'' \<mapsto> PNum 500, ''net_income'' \<mapsto> PNone]"]
  by (simp add: field_value_def field_or_zero_def is_positive_def amount_field_def
      optional_amount_field_def)

text \<open>
  The loop of \<^verbatim>\<open>project_fcfe\<close> appends one compounded value per remaining year; over
  the exact reals that is the list of the values \<open>c * (1 + g) ^ t\<close>.
\<close>

declare project_fcfe_loop.simps [simp del]

lemma project_fcfe_loop_map:
  "project_fcfe_loop g years year fcfe ps
     = ps @ map (\<lambda>k. fcfe * (1 + g) ^ Suc k) [0..<nat (years + 1 - year)]"
proof (induction g years year fcfe ps rule: project_fcfe_loop.induct)
  case (1 g years year fcfe ps)
  show ?case
  proof (cases "year \<le> years")
    case True
    then have n: "nat (years + 1 - year) = Suc (nat (years + 1 - (year + 1)))"
      by simp
    have "project_fcfe_loop g years year fcfe ps
            = project_fcfe_loop g years (year + 1) (fcfe * (1 + g)) (ps @ [fcfe * (1 + g)])"
      using True by (subst project_fcfe_loop.simps) (simp add: Let_def)
    also have "\<dots> = (ps @ [fcfe * (1 + g)])
                 @ map (\<lambda>k. fcfe * (1 + g) * (1 + g) ^ Suc k) [0..<nat (years + 1 - (year + 1))]"
      by (rule "1.IH" [OF True refl])
    also have "\<dots> = ps @ map (\<lambda>k. fcfe * (1 + g) ^ Suc k) [0..<nat (years + 1 - year)]"
      unfolding n by (simp add: upt_conv_Cons map_Suc_upt [symmetric] mult.assoc del: upt_Suc)
    finally show ?thesis .
  next
    case False
    then show ?thesis by (subst project_fcfe_loop.simps) simp
  qed
qed

lemma project_fcfe_map:
  "project_fcfe c g years = map (\<lambda>k. c * (1 + g) ^ Suc k) [0..<nat years]"
  by (simp add: project_fcfe_def project_fcfe_loop_map)

lemma project_fcfe_five:
  "project_fcfe c g 5
     = [c * (1 + g), c * (1 + g) ^ 2, c * (1 + g) ^ 3, c * (1 + g) ^ 4, c * (1 + g) ^ 5]"
proof -
  have "[0..<5] = [0, 1, 2, 3, 4::nat]"
    by (simp add: upt_rec)
  then show ?thesis
    by (simp add: project_fcfe_map numeral_2_eq_2 numeral_3_eq_3 eval_nat_numeral)
qed

section \<open>The valuation\<close>

text \<open>An FCFE that \<^verbatim>\<open>calculate_fcfe\<close> returns is positive.\<close>

lemma calculate_fcfe_positive: "calculate_fcfe fd = Some c \<Longrightarrow> 0 < c"
  by (auto simp: calculate_fcfe_def calculate_fcfe_try_def Let_def bind_exc_def
      split: option.splits sum.splits pyval.splits if_splits
      elim!: truthy_and_positive.elims as_num.elims)

text \<open>The steps of a valuation, for evaluating it on a given record.\<close>

lemma power5_eq: "(x::real) ^ 5 = x * x * x * x * x"
  by (simp add: eval_nat_numeral)

lemmas valuation_steps =
  power2_eq_square power3_eq_cube power4_eq_xxxx power5_eq
  calculate_fcfe_def calculate_fcfe_try_def dict_get_def bind_exc_def py_div_def to_float_def
  py_pow_def float_limit_def calculate_cost_of_equity_def calculate_terminal_value_def
  calculate_present_value_def calculate_per_share_value_def safe_divide_def safe_divide_try_def
  project_fcfe_five default_model_def

text \<open>
  Claim C1. The claim is that a record with well-formed numeric fields, a positive FCFE
  and positive shares outstanding is valued without error at any risk-free rate, market
  return and growth-rate choice. The code does not do so at a risk-free rate and a market
  return of 0: for the well-formed record with a free cash flow of 100 and 10 shares
  outstanding the FCFE is 100, the cost of equity is 0, the guard of
  \<^verbatim>\<open>calculate_terminal_value\<close> replaces the terminal growth rate by half the cost of
  equity, the division is by zero, and the result carries the error and no fair value.
\<close>

theorem fair_value_zero_cost_of_equity:
  "numeric_fields [''free_cash_flow'' \<mapsto> PNum 100, ''shares_outstanding'' \<mapsto> PNum 10]
   \<and> calculate_fcfe [''free_cash_flow'' \<mapsto> PNum 100, ''shares_outstanding'' \<mapsto> PNum 10] = Some 100
   \<and> error (calculate_fair_value default_model
         [''free_cash_flow'' \<mapsto> PNum 100, ''shares_outstanding'' \<mapsto> PNum 10] 0 0 None)
       = Some (Raised ZeroDivisionError)
   \<and> fair_value (calculate_fair_value default_model
         [''free_cash_flow'' \<mapsto> PNum 100, ''shares_outstanding'' \<mapsto> PNum 10] 0 0 None)
       = None"
  by (simp add: numeric_fields_def calculate_fair_value_def Let_def valuation_steps)


text \<open>
  Once step 1 has produced an FCFE and step 2 a growth rate, that rate times 100 stays
  in the assumptions on every later path, and it is the rate of the projection once the
  cost of equity is computed.
\<close>

lemma growth_rate_recorded:
  assumes "calculate_fcfe fd = Some c"
    and "(case custom of Some g \<Rightarrow> Inr g
          | None \<Rightarrow>
              bind_exc (as_num (dict_get fd ''historical_growth_rate'' (PNum 5))) (\<lambda>h.
              bind_exc (py_div h 100) (\<lambda>g. Inr (max (min g 0.25) (- 0.05))))) = Inr g"
  shows "assumptions (calculate_fair_value self fd rf mr custom) ''growth_rate'' = Some (PNum (g * 100))"
proof -
  from assms(1) have c: "0 < c" by (rule calculate_fcfe_positive)
  then show ?thesis
    by (simp add: calculate_fair_value_def Let_def assms
        split: sum.splits pyval.splits)
qed

lemma growth_rate_projected:
  assumes "calculate_fcfe fd = Some c"
    and "(case custom of Some g \<Rightarrow> Inr g
          | None \<Rightarrow>
              bind_exc (as_num (dict_get fd ''historical_growth_rate'' (PNum 5))) (\<lambda>h.
              bind_exc (py_div h 100) (\<lambda>g. Inr (max (min g 0.25) (- 0.05))))) = Inr g"
    and "fd ''beta'' \<noteq> Some PNone"
  shows "details (calculate_fair_value self fd rf mr custom) ''projected_fcfe''
           = Some (DList (project_fcfe c g (projection_years self)))"
proof -
  from assms(1) have c: "0 < c" by (rule calculate_fcfe_positive)
  from assms(3) obtain r where r: "calculate_cost_of_equity rf (dict_get fd ''beta'' (PNum 1)) mr = Inr r"
    by (cases "fd ''beta''"; cases "the (fd ''beta'')")
      (simp_all add: calculate_cost_of_equity_def dict_get_def bind_exc_def)
  from c show ?thesis
    by (simp add: calculate_fair_value_def Let_def assms(1,2) r
        split: sum.splits pyval.splits)
qed

text \<open>
  Claim C4, as stated, fails: on an empty record step 1 finds no FCFE and the function
  returns before the growth rate is resolved, so a supplied growth rate of 0.50 is
  neither used nor recorded.
\<close>

theorem growth_rate_not_recorded_without_fcfe:
  "assumptions (calculate_fair_value default_model Map.empty 0.045 0.10 (Some 0.5)) ''growth_rate'' = None
   \<and> error (calculate_fair_value default_model Map.empty 0.045 0.10 (Some 0.5))
       = Some (Message ''Could not calculate valid FCFE'')"
  by (simp add: calculate_fair_value_def calculate_fcfe_def calculate_fcfe_try_def dict_get_def
      bind_exc_def)

text \<open>
  Claim C4, amended. For every input on which \<^verbatim>\<open>calculate_fcfe\<close> yields a value: a
  supplied custom growth rate is the growth rate, unmodified, and that rate times 100 is
  recorded in the assumptions; with no custom growth rate and a historical growth rate
  \<open>h\<close> in the record, the growth rate is \<open>h / 100\<close> clamped to the interval from -0.05 to
  0.25, and that rate times 100 is recorded. In both cases, when beta is missing or a
  number, the projection is made with that rate.
\<close>

theorem growth_rate_choice:
  assumes "calculate_fcfe fd = Some c"
  shows "assumptions (calculate_fair_value self fd rf mr (Some g)) ''growth_rate''
           = Some (PNum (g * 100))
     \<and> (fd ''beta'' \<noteq> Some PNone \<longrightarrow>
          details (calculate_fair_value self fd rf mr (Some g)) ''projected_fcfe''
            = Some (DList (project_fcfe c g (projection_years self))))
     \<and> (fd ''historical_growth_rate'' = Some (PNum h) \<longrightarrow>
          assumptions (calculate_fair_value self fd rf mr None) ''growth_rate''
            = Some (PNum (max (min (h / 100) 0.25) (- 0.05) * 100))
          \<and> (fd ''beta'' \<noteq> Some PNone \<longrightarrow>
               details (calculate_fair_value self fd rf mr None) ''projected_fcfe''
                 = Some (DList (project_fcfe c (max (min (h / 100) 0.25) (- 0.05))
                                  (projection_years self)))))"
proof -
  have custom: "(case Some g of Some g \<Rightarrow> Inr g
          | None \<Rightarrow>
              bind_exc (as_num (dict_get fd ''historical_growth_rate'' (PNum 5))) (\<lambda>h.
              bind_exc (py_div h 100) (\<lambda>g. Inr (max (min g 0.25) (- 0.05))))) = Inr g"
    by simp
  have hist: "(case None of Some g \<Rightarrow> Inr g
          | None \<Rightarrow>
              bind_exc (as_num (dict_get fd ''historical_growth_rate'' (PNum 5))) (\<lambda>h.
              bind_exc (py_div h 100) (\<lambda>g. Inr (max (min g 0.25) (- 0.05)))))
        = Inr (max (min (h / 100) 0.25) (- 0.05))"
    if "fd ''historical_growth_rate'' = Some (PNum h)"
    using that by (simp add: dict_get_def bind_exc_def py_div_def)
  show ?thesis
    using growth_rate_recorded [OF assms custom] growth_rate_projected [OF assms custom]
      growth_rate_recorded [OF assms hist] growth_rate_projected [OF assms hist]
    by blast
qed

theorem growth_rate_choice_witness:
  "assumptions (calculate_fair_value default_model
      [''free_cash_flow'' \<mapsto> PNum 100, ''historical_growth_rate'' \<mapsto> PNum 50] 0.045 0.10 (Some 0.5))
      ''growth_rate'' = Some (PNum 50)
   \<and> assumptions (calculate_fair_value default_model
      [''free_cash_flow'' \<mapsto> PNum 100, ''historical_growth_rate'' \<mapsto> PNum 50] 0.045 0.10 None)
      ''growth_rate'' = Some (PNum 25)
   \<and> details (calculate_fair_value default_model
      [''free_cash_flow'' \<mapsto> PNum 100, ''historical_growth_rate'' \<mapsto> PNum 50] 0.045 0.10 None)
      ''projected_fcfe'' = Some (DList (project_fcfe 100 0.25 5))"
proof -
  let ?fd = "[''free_cash_flow'' \<mapsto> PNum 100, ''historical_growth_rate'' \<mapsto> PNum 50]"
  have a: "calculate_fcfe ?fd = Some 100"
    by (simp add: calculate_fcfe_def calculate_fcfe_try_def dict_get_def bind_exc_def
        to_float_in_range)
  show ?thesis
    using growth_rate_choice [OF a, of default_model "0.045" "0.10" "0.5" 50]
    by (simp add: default_model_def)
qed

text \<open>
  Claim C10, as stated, fails: the record with a free cash flow of -10 has no historical
  growth rate, and no custom growth rate is supplied, but step 1 finds no FCFE and the
  function returns before a growth rate is recorded or a projection made.
\<close>

theorem default_growth_rate_not_recorded_without_fcfe:
  "[''free_cash_flow'' \<mapsto> PNum (- 10)] ''historical_growth_rate'' = None
   \<and> assumptions (calculate_fair_value default_model [''free_cash_flow'' \<mapsto> PNum (- 10)]
        0.045 0.10 None) ''growth_rate'' = None
   \<and> details (calculate_fair_value default_model [''free_cash_flow'' \<mapsto> PNum (- 10)]
        0.045 0.10 None) ''projected_fcfe'' = None"
  by (simp add: calculate_fair_value_def calculate_fcfe_def calculate_fcfe_try_def dict_get_def
      bind_exc_def)

text \<open>
  Claim C10, amended. For every record on which \<^verbatim>\<open>calculate_fcfe\<close> yields a value and
  in which the historical growth rate is missing, with no custom growth rate supplied,
  5.0 is recorded as the growth rate in the assumptions and, when beta is missing or a
  number, the projection is made with the growth rate 0.05.
\<close>

theorem default_growth_rate:
  assumes "calculate_fcfe fd = Some c" and "fd ''historical_growth_rate'' = None"
  shows "assumptions (calculate_fair_value self fd rf mr None) ''growth_rate'' = Some (PNum 5)
     \<and> (fd ''beta'' \<noteq> Some PNone \<longrightarrow>
          details (calculate_fair_value self fd rf mr None) ''projected_fcfe''
            = Some (DList (project_fcfe c 0.05 (projection_years self))))"
proof -
  have dflt: "(case None of Some g \<Rightarrow> Inr g
          | None \<Rightarrow>
              bind_exc (as_num (dict_get fd ''historical_growth_rate'' (PNum 5))) (\<lambda>h.
              bind_exc (py_div h 100) (\<lambda>g. Inr (max (min g 0.25) (- 0.05)))))
        = Inr 0.05"
    using assms(2) by (simp add: dict_get_def bind_exc_def py_div_def)
  show ?thesis
    using growth_rate_recorded [OF assms(1) dflt] growth_rate_projected [OF assms(1) dflt]
    by simp
qed

theorem default_growth_rate_witness:
  "assumptions (calculate_fair_value default_model [''free_cash_flow'' \<mapsto> PNum 100] 0.045 0.10 None)
      ''growth_rate'' = Some (PNum 5)
   \<and> details (calculate_fair_value default_model [''free_cash_flow'' \<mapsto> PNum 100] 0.045 0.10 None)
      ''projected_fcfe'' = Some (DList (project_fcfe 100 0.05 5))"
proof -
  let ?fd = "[''free_cash_flow'' \<mapsto> PNum 100]"
  have a: "calculate_fcfe ?fd = Some 100"
    by (simp add: calculate_fcfe_def calculate_fcfe_try_def dict_get_def bind_exc_def
        to_float_in_range)
  have b: "?fd ''historical_growth_rate'' = None"
    by simp
  have beta: "?fd ''beta'' \<noteq> Some PNone"
    by simp
  have py: "projection_years default_model = 5"
    by (simp add: default_model_def)
  show ?thesis
    using default_growth_rate [OF a b, of default_model "0.045" "0.10"] beta
    unfolding py by blast
qed

section \<open>The sensitivity analysis\<close>

text \<open>The loop adds one scenario per growth rate and keeps the valuation at 0.05.\<close>

lemma sensitivity_loop_result:
  "sensitivity_loop self fd rf mr grs results =
     \<lparr>growth_sensitivity = growth_sensitivity results @
        map (\<lambda>gr. \<lparr>scenario_growth_rate = gr * 100,
                    scenario_fair_value = fair_value (calculate_fair_value self fd rf mr (Some gr))\<rparr>) grs,
      base_case = (if 0.05 \<in> set grs then Some (calculate_fair_value self fd rf mr (Some 0.05))
                   else base_case results)\<rparr>"
proof (induction grs arbitrary: results)
  case Nil
  show ?case by simp
next
  case (Cons gr grs)
  show ?case
  proof (cases "gr = 0.05")
    case True
    show ?thesis unfolding True by (simp add: Cons.IH Let_def)
  next
    case False
    then show ?thesis by (simp add: Cons.IH Let_def)
  qed
qed

text \<open>
  Claim C8. \<^verbatim>\<open>sensitivity_analysis\<close> over a supplied list of growth rates yields one
  scenario per rate, in the order of the list, holding the rate times 100 and the fair
  value of the valuation run with that rate as the custom growth rate. The base case is
  the full result of the valuation at the rate 0.05 when the list holds exactly 0.05,
  and stays unset otherwise: set for the list 0.03, 0.05, 0.07 and unset for the list
  0.03, 0.04, 0.07.
\<close>

theorem sensitivity_analysis_scenarios:
  "growth_sensitivity (sensitivity_analysis self fd rf mr (Some grs))
     = map (\<lambda>gr. \<lparr>scenario_growth_rate = gr * 100,
                   scenario_fair_value = fair_value (calculate_fair_value self fd rf mr (Some gr))\<rparr>) grs
   \<and> base_case (sensitivity_analysis self fd rf mr (Some grs))
     = (if 0.05 \<in> set grs then Some (calculate_fair_value self fd rf mr (Some 0.05)) else None)
   \<and> base_case (sensitivity_analysis self fd rf mr (Some [0.03, 0.05, 0.07]))
     = Some (calculate_fair_value self fd rf mr (Some 0.05))
   \<and> base_case (sensitivity_analysis self fd rf mr (Some [0.03, 0.04, 0.07])) = None"
  by (simp add: sensitivity_analysis_def sensitivity_loop_result)

theorem sensitivity_analysis_scenarios_witness:
  "map scenario_growth_rate (growth_sensitivity (sensitivity_analysis default_model
       [''free_cash_flow'' \<mapsto> PNum 100, ''shares_outstanding'' \<mapsto> PNum 10] 0.045 0.10
       (Some [0.03, 0.05, 0.07]))) = [3, 5, 7]
   \<and> base_case (sensitivity_analysis default_model
       [''free_cash_flow'' \<mapsto> PNum 100, ''shares_outstanding'' \<mapsto> PNum 10] 0.045 0.10
       (Some [0.03, 0.05, 0.07]))
     = Some (calculate_fair_value default_model
         [''free_cash_flow'' \<mapsto> PNum 100, ''shares_outstanding'' \<mapsto> PNum 10] 0.045 0.10 (Some 0.05))"
  using sensitivity_analysis_scenarios [of default_model
      "[''free_cash_flow'' \<mapsto> PNum 100, ''shares_outstanding'' \<mapsto> PNum 10]" "0.045" "0.10"
      "[0.03, 0.05, 0.07]"]
  by simp

end
